theory Spec2Isabelle
  imports Complex_Main "HOL-Library.Char_ord" "HOL-Library.List_Lexorder" "HOL-Library.Multiset"
begin

section \<open>Python values, errors and the external collaborators\<close>

text \<open>
  The exceptions that can leave \<^verbatim>\<open>potodo.py\<close>: the \<^verbatim>\<open>ValueError\<close> raised by
  \<^verbatim>\<open>initialize_arguments\<close>, the \<^verbatim>\<open>StatisticsError\<close> of \<^verbatim>\<open>statistics.mean\<close> on an
  empty list, the \<^verbatim>\<open>TypeError\<close> of \<^verbatim>\<open>str.join\<close> on a non-string item, and whatever an
  external collaborator (\<^verbatim>\<open>get_reservation_list\<close>, \<^verbatim>\<open>get_po_files_from_repo\<close>) raises.
\<close>

datatype error =
    ValueError string
  | StatisticsError string
  | TypeError string
  | ExternalError string

text \<open>
  The values that end up in \<^verbatim>\<open>buffer\<close> and \<^verbatim>\<open>dir_stats\<close>: strings (text mode) and
  dictionaries (JSON mode). A dictionary keeps its insertion order, so it is a list of
  key/value pairs. \<open>JFloat s\<close> is the float that \<^verbatim>\<open>float(s)\<close> parses from the
  decimal string \<open>s\<close>.
\<close>

datatype json =
    JNull
  | JInt int
  | JFloat string
  | JStr string
  | JArray "json list"
  | JObject "(string \<times> json) list"

text \<open>
  Modelled from the spec: the class \<^verbatim>\<open>PoFileStats\<close> of \<^verbatim>\<open>potodo._po_file\<close> (FileStats
  in the data model) is declared outside the source at hand. The record has the attributes that
  \<^verbatim>\<open>potodo.py\<close> reads. \<open>path\<close> is \<^verbatim>\<open>str(po_file_stats.path)\<close>; the entries are opaque
  and stand as strings; \<open>percent_translated\<close> is an integer, as the annotation
  \<^verbatim>\<open>folder_stats: List[int]\<close> has it. Strings are lists of code points below 256.
\<close>

record po_file_stats =
  path :: string
  filename :: string
  directory :: string
  filename_dir :: string
  fuzzy_entries :: "string list"
  fuzzy_nb :: nat
  untranslated_entries :: "string list"
  translated_nb :: nat
  po_file_size :: nat
  percent_translated :: int

text \<open>
  Modelled from the spec: the range that the data model gives \<^verbatim>\<open>percent_translated\<close>, from 0
  to 100; the class that computes the percentage is outside the source at hand.
\<close>

definition valid_percent :: "po_file_stats \<Rightarrow> bool" where
  "valid_percent po_file =
     (0 \<le> percent_translated po_file \<and> percent_translated po_file \<le> 100)"

text \<open>
  The collaborators and the library call that \<^verbatim>\<open>potodo.py\<close> uses and whose code is outside
  it. A collaborator returns its value, or the message of the exception it raised (\<open>Inl\<close>).
  The dictionary of \<^verbatim>\<open>get_po_files_from_repo\<close> is the list of its items.
  \<open>format_2f m\<close> is \<^verbatim>\<open>f"{m:.2f}"\<close> for the value that \<^verbatim>\<open>statistics.mean\<close> returns, which
  is the exact mean converted to an int or a float; the string is a function of that mean.
\<close>

record env =
  get_reservation_list :: "string \<Rightarrow> string + (string \<rightharpoonup> string)"
  get_po_files_from_repo :: "string \<Rightarrow> string + (string \<times> po_file_stats list) list"
  format_2f :: "rat \<Rightarrow> string"

text \<open>
  What a run writes to standard output, one item per \<^verbatim>\<open>print\<close> call: \<open>Print s\<close> is
  \<^verbatim>\<open>print(s)\<close>, and \<open>PrintJson v\<close> is
  \<^verbatim>\<open>print(json.dumps(v, indent=4, separators=(',', ': '), sort_keys=False))\<close>.
\<close>

datatype printed = Print string | PrintJson json

section \<open>String helpers of the Python library\<close>

text \<open>\<^verbatim>\<open>str(n)\<close> for a natural number and for an integer.\<close>

fun str_nat :: "nat \<Rightarrow> string" where
  "str_nat n =
     (if n < 10 then [char_of (48 + n)]
      else str_nat (n div 10) @ [char_of (48 + n mod 10)])"

declare str_nat.simps [simp del]

definition str_int :: "int \<Rightarrow> string" where
  "str_int i = (if i < 0 then CHR ''-'' # str_nat (nat (- i)) else str_nat (nat i))"

text \<open>\<^verbatim>\<open>f"{s:<w}"\<close> pads on the right, \<^verbatim>\<open>f"{n:wd}"\<close> pads on the left; neither truncates.\<close>

definition ljust :: "nat \<Rightarrow> string \<Rightarrow> string" where
  "ljust w s = s @ replicate (w - length s) CHR '' ''"

definition rjust :: "nat \<Rightarrow> string \<Rightarrow> string" where
  "rjust w s = replicate (w - length s) CHR '' '' @ s"

text \<open>\<^verbatim>\<open>f"{p:5.1f}"\<close> for an integer \<open>p\<close>: one decimal, which is always 0.\<close>

definition format_5_1f :: "int \<Rightarrow> string" where
  "format_5_1f p = rjust 5 (str_int p @ ''.0'')"

text \<open>\<^verbatim>\<open>s.strip(chars)\<close> removes from both ends every character that occurs in \<open>chars\<close>.\<close>

definition strip :: "string \<Rightarrow> string \<Rightarrow> string" where
  "strip chars s =
     rev (dropWhile (\<lambda>c. c \<in> set chars) (rev (dropWhile (\<lambda>c. c \<in> set chars) s)))"

text \<open>\<^verbatim>\<open>s.lower()\<close> on code points below 256.\<close>

definition lower_char :: "char \<Rightarrow> char" where
  "lower_char c =
     (let n = (of_char c :: nat)
      in if (65 \<le> n \<and> n \<le> 90) \<or> (192 \<le> n \<and> n \<le> 222 \<and> n \<noteq> 215)
         then char_of (n + 32) else c)"

definition lower :: "string \<Rightarrow> string" where
  "lower s = map lower_char s"

text \<open>\<^verbatim>\<open>sep.join(items)\<close> on strings.\<close>

fun join :: "string \<Rightarrow> string list \<Rightarrow> string" where
  "join sep [] = []"
| "join sep [s] = s"
| "join sep (s # t # ss) = s @ sep @ join sep (t # ss)"

text \<open>The items of a list as strings; \<^verbatim>\<open>str.join\<close> raises on an item that is not one.\<close>

fun str_items :: "json list \<Rightarrow> error + string list" where
  "str_items [] = Inr []"
| "str_items (JStr s # xs) =
     (case str_items xs of Inl e \<Rightarrow> Inl e | Inr ss \<Rightarrow> Inr (s # ss))"
| "str_items (x # xs) = Inl (TypeError ''expected str instance'')"

text \<open>
  \<^verbatim>\<open>statistics.mean\<close>: the exact mean of the data, and \<^verbatim>\<open>StatisticsError\<close> on no data.
\<close>

definition mean :: "int list \<Rightarrow> error + rat" where
  "mean data =
     (if data = [] then Inl (StatisticsError ''mean requires at least one data point'')
      else Inr (of_int (sum_list data) / of_int (int (length data))))"

section \<open>\<^verbatim>\<open>initialize_arguments\<close>\<close>

text \<open>
  \<^verbatim>\<open>if not v: v = d\<close> on an optional integer: \<^verbatim>\<open>None\<close> and 0 are false in Python, so
  both are replaced by the default. After both defaults the thresholds are integers, and
  \<^verbatim>\<open>if above and below\<close> tests that neither is 0.
\<close>

definition default_to :: "int \<Rightarrow> int option \<Rightarrow> int" where
  "default_to d v = (case v of None \<Rightarrow> d | Some n \<Rightarrow> if n = 0 then d else n)"

definition initialize_arguments ::
  "(string \<Rightarrow> string + (string \<rightharpoonup> string)) \<Rightarrow> int option \<Rightarrow> int option \<Rightarrow> bool \<Rightarrow> bool \<Rightarrow> string
     \<Rightarrow> error + (int \<times> int \<times> (string \<rightharpoonup> string))" where
  "initialize_arguments reservation_list above_arg below_arg offline hide_reserved repo_path =
     (let above' = default_to 0 above_arg;
          below' = default_to 100 below_arg
      in if (above' \<noteq> 0 \<and> below' \<noteq> 0) \<and> below' < above'
         then Inl (ValueError ''Below must be inferior to above'')
         else if \<not> offline \<and> \<not> hide_reserved
         then (case reservation_list repo_path of
                 Inl msg \<Rightarrow> Inl (ExternalError msg)
               | Inr issue_reservations \<Rightarrow> Inr (above', below', issue_reservations))
         else Inr (above', below', Map.empty))"

section \<open>\<^verbatim>\<open>buffer_add\<close>\<close>

text \<open>
  The three lists that \<^verbatim>\<open>buffer_add\<close> mutates, in the order
  \<^verbatim>\<open>buffer\<close>, \<^verbatim>\<open>folder_stats\<close>, \<^verbatim>\<open>printed_list\<close>; the function returns them updated.
\<close>

type_synonym dir_lists = "json list \<times> int list \<times> bool list"

text \<open>
  The descriptor of a shown file is built in three parts of \<^verbatim>\<open>buffer_add\<close>, which stand
  here as three definitions: the number of fuzzies (\<^verbatim>\<open>fuzzy_nb\<close>, line 171), the dictionary
  of JSON mode (lines 183 to 185) and the line of text mode (lines 188 to 201).
\<close>

definition fuzzy_count :: "po_file_stats \<Rightarrow> nat" where
  "fuzzy_count po_file = (if fuzzy_entries po_file \<noteq> [] then fuzzy_nb po_file else 0)"

definition json_desc :: "po_file_stats \<Rightarrow> string option \<Rightarrow> json" where
  "json_desc po_file reserved_by =
     JObject
       [(''name'', JStr (directory po_file @ ''/'' @ strip ''.po'' (filename po_file))),
        (''path'', JStr (path po_file)),
        (''entries'', JInt (int (po_file_size po_file))),
        (''fuzzies'', JInt (int (fuzzy_count po_file))),
        (''translated'', JInt (int (translated_nb po_file))),
        (''pc_translated'', JInt (percent_translated po_file)),
        (''reserved_by'', (case reserved_by of None \<Rightarrow> JNull | Some r \<Rightarrow> JStr r))]"

definition text_desc :: "po_file_stats \<Rightarrow> string option \<Rightarrow> bool \<Rightarrow> string" where
  "text_desc po_file reserved_by counts =
     ''- '' @ ljust 30 (filename po_file) @ '' ''
     @ (if counts
        then (let missing = length (fuzzy_entries po_file) + length (untranslated_entries po_file)
              in rjust 3 (str_nat missing) @ '' to do''
                 @ (if fuzzy_count po_file \<noteq> 0
                    then '', including '' @ str_nat (fuzzy_count po_file) @ '' fuzzies.''
                    else []))
        else rjust 3 (str_nat (translated_nb po_file)) @ '' / ''
             @ rjust 3 (str_nat (po_file_size po_file)) @ '' ''
             @ ''('' @ format_5_1f (percent_translated po_file) @ ''% translated)''
             @ (if fuzzy_count po_file \<noteq> 0
                then '', '' @ str_nat (fuzzy_count po_file) @ '' fuzzy''
                else []))
     @ (case reserved_by of
          None \<Rightarrow> []
        | Some r \<Rightarrow> '', r'' @ [CHR 0xE9] @ ''serv'' @ [CHR 0xE9] @ '' par '' @ r)"

text \<open>
  \<^verbatim>\<open>reserved_by\<close> is \<^verbatim>\<open>issue_reservations.get(po_file_stats.filename_dir.lower(), None)\<close>.
\<close>

definition buffer_add ::
  "dir_lists \<Rightarrow> po_file_stats \<Rightarrow> (string \<rightharpoonup> string) \<Rightarrow> int \<Rightarrow> int \<Rightarrow> bool \<Rightarrow> bool \<Rightarrow> dir_lists" where
  "buffer_add st po_file issue_reservations above' below' counts json_format =
     (case st of (buffer, folder_stats, printed_list) \<Rightarrow>
      if percent_translated po_file = 100
         \<or> percent_translated po_file < above'
         \<or> percent_translated po_file > below'
      then (buffer,
            folder_stats @ [percent_translated po_file],
            if \<not> json_format then printed_list @ [False] else printed_list)
      else
        let reserved_by = issue_reservations (lower (filename_dir po_file));
            desc = (if json_format then json_desc po_file reserved_by
                    else JStr (text_desc po_file reserved_by counts))
        in (buffer @ [desc],
            folder_stats @ [percent_translated po_file],
            printed_list @ [True]))"

section \<open>\<^verbatim>\<open>print_dir_stats\<close> and \<^verbatim>\<open>add_dir_stats\<close>\<close>

text \<open>
  \<^verbatim>\<open>print_dir_stats\<close> returns what it printed, in order (\<^verbatim>\<open>print\<close> ends each item with a
  newline), and the exception that ended it, if any. The header is formatted, and so the
  mean computed, before the first \<^verbatim>\<open>print\<close>.
\<close>

definition print_dir_stats ::
  "(rat \<Rightarrow> string) \<Rightarrow> string \<Rightarrow> json list \<Rightarrow> int list \<Rightarrow> bool list \<Rightarrow> printed list \<times> error option" where
  "print_dir_stats fmt directory_name buffer folder_stats printed_list =
     (if True \<in> set printed_list
      then (case mean folder_stats of
              Inl e \<Rightarrow> ([], Some e)
            | Inr m \<Rightarrow>
                (let header = ''\<newline>\<newline># '' @ directory_name @ '' ('' @ fmt m @ ''% done)\<newline>''
                 in case str_items buffer of
                      Inl e \<Rightarrow> ([Print header], Some e)
                    | Inr ls \<Rightarrow> ([Print header, Print (join ''\<newline>'' ls)], None)))
      else ([], None))"

text \<open>\<^verbatim>\<open>add_dir_stats\<close> returns \<^verbatim>\<open>all_stats\<close> updated, or the exception.\<close>

definition add_dir_stats ::
  "(rat \<Rightarrow> string) \<Rightarrow> string \<Rightarrow> json list \<Rightarrow> int list \<Rightarrow> bool list \<Rightarrow> json list \<Rightarrow> error + json list" where
  "add_dir_stats fmt directory_name buffer folder_stats printed_list all_stats =
     (if True \<in> set printed_list
      then (case mean folder_stats of
              Inl e \<Rightarrow> Inl e
            | Inr m \<Rightarrow>
                Inr (all_stats @
                  [JObject [(''name'', JStr (directory_name @ ''/'')),
                            (''pc_translated'', JFloat (fmt m)),
                            (''files'', JArray buffer)]]))
      else Inr all_stats)"

section \<open>\<^verbatim>\<open>exec_potodo\<close>\<close>

text \<open>The inner loop: \<^verbatim>\<open>for po_file in sorted(po_files)\<close>, over the sorted list.\<close>

fun for_po_files ::
  "bool \<Rightarrow> (string \<rightharpoonup> string) \<Rightarrow> int \<Rightarrow> int \<Rightarrow> bool \<Rightarrow> bool \<Rightarrow> po_file_stats list \<Rightarrow> dir_lists \<Rightarrow> dir_lists" where
  "for_po_files fuzzy issue_reservations above' below' counts json_format [] st = st"
| "for_po_files fuzzy issue_reservations above' below' counts json_format (po_file # rest) st =
     for_po_files fuzzy issue_reservations above' below' counts json_format rest
       (if \<not> fuzzy \<or> fuzzy_entries po_file \<noteq> []
        then buffer_add st po_file issue_reservations above' below' counts json_format
        else st)"

text \<open>
  Modelled from the spec: the order of \<^verbatim>\<open>PoFileStats\<close> (its \<^verbatim>\<open>__lt__\<close>) is declared outside
  the source at hand; files are sorted by their path, ascending.
\<close>

definition sorted_po_files :: "po_file_stats list \<Rightarrow> po_file_stats list" where
  "sorted_po_files po_files = sort_key path po_files"

text \<open>
  The outer loop: \<^verbatim>\<open>for directory_name, po_files in sorted(po_files_and_dirs.items())\<close>,
  over the sorted items. The state is what has been printed so far and \<^verbatim>\<open>dir_stats\<close>;
  the result is that state and the exception that ended the loop, if any.
\<close>

fun for_directories ::
  "(rat \<Rightarrow> string) \<Rightarrow> bool \<Rightarrow> (string \<rightharpoonup> string) \<Rightarrow> int \<Rightarrow> int \<Rightarrow> bool \<Rightarrow> bool
     \<Rightarrow> (string \<times> po_file_stats list) list \<Rightarrow> printed list \<times> json list
     \<Rightarrow> (printed list \<times> json list) \<times> error option" where
  "for_directories fmt fuzzy issue_reservations above' below' counts json_format [] st = (st, None)"
| "for_directories fmt fuzzy issue_reservations above' below' counts json_format
     ((directory_name, po_files) # rest) (out, dir_stats) =
     (case for_po_files fuzzy issue_reservations above' below' counts json_format
             (sorted_po_files po_files) ([], [], []) of
        (buffer, folder_stats, printed_list) \<Rightarrow>
          if json_format
          then (case add_dir_stats fmt directory_name buffer folder_stats printed_list dir_stats of
                  Inl e \<Rightarrow> ((out, dir_stats), Some e)
                | Inr dir_stats' \<Rightarrow>
                    for_directories fmt fuzzy issue_reservations above' below' counts json_format
                      rest (out, dir_stats'))
          else (case print_dir_stats fmt directory_name buffer folder_stats printed_list of
                  (printed, Some e) \<Rightarrow> ((out @ printed, dir_stats), Some e)
                | (printed, None) \<Rightarrow>
                    for_directories fmt fuzzy issue_reservations above' below' counts json_format
                      rest (out @ printed, dir_stats)))"

text \<open>
  \<^verbatim>\<open>exec_potodo\<close> returns what the run printed, in order, and the exception that ended the
  run, if any.
\<close>

definition exec_potodo ::
  "env \<Rightarrow> string \<Rightarrow> int option \<Rightarrow> int option \<Rightarrow> bool \<Rightarrow> bool \<Rightarrow> bool \<Rightarrow> bool \<Rightarrow> bool
     \<Rightarrow> printed list \<times> error option" where
  "exec_potodo E repo above_arg below_arg fuzzy offline hide_reserved counts json_format =
     (case initialize_arguments (get_reservation_list E) above_arg below_arg offline hide_reserved repo of
        Inl e \<Rightarrow> ([], Some e)
      | Inr (above', below', issue_reservations) \<Rightarrow>
          (case get_po_files_from_repo E repo of
             Inl msg \<Rightarrow> ([], Some (ExternalError msg))
           | Inr po_files_and_dirs \<Rightarrow>
               (case for_directories (format_2f E) fuzzy issue_reservations above' below' counts
                       json_format (sort_key fst po_files_and_dirs) ([], []) of
                  ((out, dir_stats), Some e) \<Rightarrow> (out, Some e)
                | ((out, dir_stats), None) \<Rightarrow>
                    if json_format
                    then (out @ [PrintJson (JArray dir_stats)], None)
                    else (out, None))))"

section \<open>The report of a run\<close>

text \<open>
  The two tests a file goes through, and what a directory keeps of its files. A file
  reaches \<^verbatim>\<open>buffer_add\<close> when it passes the test of \<^verbatim>\<open>exec_potodo\<close> on \<^verbatim>\<open>fuzzy\<close>; it is
  shown when \<^verbatim>\<open>buffer_add\<close> does not take its early return. The descriptor is what
  \<^verbatim>\<open>buffer_add\<close> appends to \<^verbatim>\<open>buffer\<close> for a shown file.
\<close>

definition passes_fuzzy :: "bool \<Rightarrow> po_file_stats \<Rightarrow> bool" where
  "passes_fuzzy fuzzy po_file = (\<not> fuzzy \<or> fuzzy_entries po_file \<noteq> [])"

definition shown :: "int \<Rightarrow> int \<Rightarrow> po_file_stats \<Rightarrow> bool" where
  "shown above' below' po_file =
     (\<not> (percent_translated po_file = 100
         \<or> percent_translated po_file < above'
         \<or> percent_translated po_file > below'))"

definition descriptor :: "(string \<rightharpoonup> string) \<Rightarrow> bool \<Rightarrow> bool \<Rightarrow> po_file_stats \<Rightarrow> json" where
  "descriptor issue_reservations counts json_format po_file =
     (let reserved_by = issue_reservations (lower (filename_dir po_file))
      in if json_format then json_desc po_file reserved_by
         else JStr (text_desc po_file reserved_by counts))"

text \<open>
  The files of a directory that count for its mean (all that pass the test on \<^verbatim>\<open>fuzzy\<close>,
  shown or not), the files that are shown, in the order of the loop, and the arithmetic
  mean of the percentages of the former.
\<close>

definition counted_files :: "bool \<Rightarrow> po_file_stats list \<Rightarrow> po_file_stats list" where
  "counted_files fuzzy po_files = filter (passes_fuzzy fuzzy) po_files"

definition shown_files :: "bool \<Rightarrow> int \<Rightarrow> int \<Rightarrow> po_file_stats list \<Rightarrow> po_file_stats list" where
  "shown_files fuzzy above' below' po_files =
     filter (\<lambda>f. passes_fuzzy fuzzy f \<and> shown above' below' f) (sorted_po_files po_files)"

definition mean_percent :: "bool \<Rightarrow> po_file_stats list \<Rightarrow> rat" where
  "mean_percent fuzzy po_files =
     of_int (sum_list (map percent_translated (counted_files fuzzy po_files)))
       / of_int (int (length (counted_files fuzzy po_files)))"

text \<open>
  The report in the spec's words: the directories that have a shown file, sorted by name,
  each with its mean and its shown files; and the two renderings of a report.
\<close>

type_synonym dir_report = "string \<times> rat \<times> po_file_stats list"

definition report ::
  "bool \<Rightarrow> int \<Rightarrow> int \<Rightarrow> (string \<times> po_file_stats list) list \<Rightarrow> dir_report list" where
  "report fuzzy above' below' dirs =
     map (\<lambda>(d, po_files).
            (d, mean_percent fuzzy po_files, shown_files fuzzy above' below' po_files))
       (filter (\<lambda>(d, po_files). shown_files fuzzy above' below' po_files \<noteq> [])
          (sort_key fst dirs))"

definition render_text ::
  "(rat \<Rightarrow> string) \<Rightarrow> (string \<rightharpoonup> string) \<Rightarrow> bool \<Rightarrow> dir_report list \<Rightarrow> printed list" where
  "render_text fmt issue_reservations counts rep =
     concat (map (\<lambda>(d, m, files).
        [Print (''\<newline>\<newline># '' @ d @ '' ('' @ fmt m @ ''% done)\<newline>''),
         Print (join ''\<newline>''
           (map (\<lambda>f. text_desc f (issue_reservations (lower (filename_dir f))) counts) files))])
       rep)"

definition render_json ::
  "(rat \<Rightarrow> string) \<Rightarrow> (string \<rightharpoonup> string) \<Rightarrow> dir_report list \<Rightarrow> printed list" where
  "render_json fmt issue_reservations rep =
     [PrintJson (JArray (map (\<lambda>(d, m, files).
        JObject
          [(''name'', JStr (d @ ''/'')),
           (''pc_translated'', JFloat (fmt m)),
           (''files'', JArray
              (map (\<lambda>f. json_desc f (issue_reservations (lower (filename_dir f)))) files))])
       rep))]"

section \<open>Sample inputs\<close>

text \<open>
  A formatter for the examples below: it writes a non-negative rational with two decimals,
  cutting the rest off, and so agrees with \<^verbatim>\<open>f"{m:.2f}"\<close> on the means that have at most two
  decimals.
\<close>

definition two_decimals :: "rat \<Rightarrow> string" where
  "two_decimals m =
     (let n = nat \<lfloor>m * 100\<rfloor>
      in str_nat (n div 100) @ ''.'' @ str_nat (n mod 100 div 10) @ str_nat (n mod 10))"

text \<open>
  The directory of the spec's example: \<open>fr/folder\<close> with a file that is complete, one at
  50% with two fuzzy entries, and one at 30%; and a second directory whose only file is
  complete.
\<close>

definition sample_file :: "string \<Rightarrow> string \<Rightarrow> string list \<Rightarrow> nat \<Rightarrow> nat \<Rightarrow> int \<Rightarrow> po_file_stats" where
  "sample_file dir name fuzzies done entries percent =
     \<lparr>path = ''fr/'' @ dir @ ''/'' @ name, filename = name, directory = dir,
      filename_dir = dir @ ''/'' @ name, fuzzy_entries = fuzzies, fuzzy_nb = length fuzzies,
      untranslated_entries = replicate (entries - done - length fuzzies) ''msgid'',
      translated_nb = done, po_file_size = entries, percent_translated = percent\<rparr>"

definition file_a :: po_file_stats where
  "file_a = sample_file ''folder'' ''a.po'' [] 10 10 100"

definition file_b :: po_file_stats where
  "file_b = sample_file ''folder'' ''b.po'' [''f1'', ''f2''] 5 10 50"

definition file_c :: po_file_stats where
  "file_c = sample_file ''folder'' ''c.po'' [] 3 10 30"

definition file_d :: po_file_stats where
  "file_d = sample_file ''done'' ''d.po'' [] 4 4 100"

definition sample_env :: env where
  "sample_env =
     \<lparr>get_reservation_list = (\<lambda>repo. Inr [''folder/c.po'' \<mapsto> ''alice'']),
      get_po_files_from_repo =
        (\<lambda>repo. Inr [(''folder'', [file_c, file_a, file_b]), (''done'', [file_d])]),
      format_2f = two_decimals\<rparr>"

section \<open>What the loops compute\<close>

lemma buffer_add_cases:
  "buffer_add (buffer, folder_stats, printed_list) f ir a b counts j =
     (if shown a b f
      then (buffer @ [descriptor ir counts j f],
            folder_stats @ [percent_translated f],
            printed_list @ [True])
      else (buffer,
            folder_stats @ [percent_translated f],
            if j then printed_list else printed_list @ [False]))"
  by (simp add: buffer_add_def shown_def descriptor_def Let_def)

lemma for_po_files_step:
  "for_po_files fz ir a b counts j (f # fs) st =
     for_po_files fz ir a b counts j fs
       (if passes_fuzzy fz f then buffer_add st f ir a b counts j else st)"
  unfolding passes_fuzzy_def by (simp only: for_po_files.simps)

lemma for_po_files_text:
  "for_po_files fz ir a b counts False fs (buffer, folder_stats, printed_list) =
     (buffer @ map (descriptor ir counts False)
                 (filter (\<lambda>f. passes_fuzzy fz f \<and> shown a b f) fs),
      folder_stats @ map percent_translated (filter (passes_fuzzy fz) fs),
      printed_list @ map (shown a b) (filter (passes_fuzzy fz) fs))"
proof (induction fs arbitrary: buffer folder_stats printed_list)
  case Nil
  show ?case by simp
next
  case (Cons f fs)
  show ?case
    unfolding for_po_files_step by (simp add: buffer_add_cases Cons.IH)
qed

lemma for_po_files_json:
  "for_po_files fz ir a b counts True fs (buffer, folder_stats, printed_list) =
     (buffer @ map (descriptor ir counts True)
                 (filter (\<lambda>f. passes_fuzzy fz f \<and> shown a b f) fs),
      folder_stats @ map percent_translated (filter (passes_fuzzy fz) fs),
      printed_list @ map (\<lambda>f. True) (filter (\<lambda>f. passes_fuzzy fz f \<and> shown a b f) fs))"
proof (induction fs arbitrary: buffer folder_stats printed_list)
  case Nil
  show ?case by simp
next
  case (Cons f fs)
  show ?case
    unfolding for_po_files_step by (simp add: buffer_add_cases Cons.IH)
qed

lemma for_po_files_lists:
  "for_po_files fz ir a b counts j fs (buffer, folder_stats, printed_list) =
     (buffer @ map (descriptor ir counts j) (filter (\<lambda>f. passes_fuzzy fz f \<and> shown a b f) fs),
      folder_stats @ map percent_translated (filter (passes_fuzzy fz) fs),
      printed_list @
        (if j then map (\<lambda>f. True) (filter (\<lambda>f. passes_fuzzy fz f \<and> shown a b f) fs)
         else map (shown a b) (filter (passes_fuzzy fz) fs)))"
  by (cases j) (simp_all add: for_po_files_text for_po_files_json)

lemma flags_have_True:
  "True \<in> set (if j then map (\<lambda>f. True) (filter (\<lambda>f. P f \<and> Q f) fs) else map Q (filter P fs))
     \<longleftrightarrow> filter (\<lambda>f. P f \<and> Q f) fs \<noteq> []"
  by (auto simp: filter_empty_conv)

lemma dir_lists_eq:
  assumes "for_po_files fz ir a b counts j (sorted_po_files fs) ([], [], []) =
             (buffer, folder_stats, printed_list)"
  shows "buffer = map (descriptor ir counts j) (shown_files fz a b fs)"
    and "folder_stats = map percent_translated (counted_files fz (sorted_po_files fs))"
    and "True \<in> set printed_list \<longleftrightarrow> shown_files fz a b fs \<noteq> []"
  using assms flags_have_True [of j "passes_fuzzy fz" "shown a b" "sorted_po_files fs"]
  by (auto simp: for_po_files_lists shown_files_def counted_files_def split: if_splits)

lemma sum_counted_sorted:
  "sum_list (map percent_translated (counted_files fz (sorted_po_files fs))) =
   sum_list (map percent_translated (counted_files fz fs))"
proof -
  have "mset (map percent_translated (counted_files fz (sorted_po_files fs))) =
        mset (map percent_translated (counted_files fz fs))"
    by (simp add: counted_files_def sorted_po_files_def)
  then show ?thesis
    by (metis sum_mset_sum_list)
qed

lemma length_counted_sorted:
  "length (counted_files fz (sorted_po_files fs)) = length (counted_files fz fs)"
proof -
  have "mset (counted_files fz (sorted_po_files fs)) = mset (counted_files fz fs)"
    by (simp add: counted_files_def sorted_po_files_def)
  then show ?thesis
    by (metis size_mset)
qed

lemma shown_files_counted:
  "shown_files fz a b fs \<noteq> [] \<Longrightarrow> counted_files fz (sorted_po_files fs) \<noteq> []"
  by (auto simp: shown_files_def counted_files_def filter_empty_conv)

lemma mean_counted:
  assumes "shown_files fz a b fs \<noteq> []"
  shows "mean (map percent_translated (counted_files fz (sorted_po_files fs))) =
           Inr (mean_percent fz fs)"
  using shown_files_counted [OF assms]
  by (simp add: mean_def mean_percent_def sum_counted_sorted length_counted_sorted)

lemma str_items_descriptor:
  "str_items (map (descriptor ir counts False) fs) =
     Inr (map (\<lambda>f. text_desc f (ir (lower (filename_dir f))) counts) fs)"
  by (induction fs) (simp_all add: descriptor_def)

lemma descriptor_json: "map (descriptor ir counts True) fs =
   map (\<lambda>f. json_desc f (ir (lower (filename_dir f)))) fs"
  by (simp add: descriptor_def)


lemma print_dir_stats_lists:
  assumes "for_po_files fz ir a b counts False (sorted_po_files fs) ([], [], []) =
             (buffer, folder_stats, printed_list)"
  shows "print_dir_stats fmt d buffer folder_stats printed_list =
           (if shown_files fz a b fs = [] then ([], None)
            else ([Print (''\<newline>\<newline># '' @ d @ '' ('' @ fmt (mean_percent fz fs) @ ''% done)\<newline>''),
                   Print (join ''\<newline>''
                     (map (\<lambda>f. text_desc f (ir (lower (filename_dir f))) counts)
                        (shown_files fz a b fs)))], None))"
proof (cases "shown_files fz a b fs = []")
  case True
  then show ?thesis
    using dir_lists_eq(3) [OF assms] by (simp add: print_dir_stats_def)
next
  case False
  then have flag: "True \<in> set printed_list"
    using dir_lists_eq(3) [OF assms] by simp
  have m: "mean folder_stats = Inr (mean_percent fz fs)"
    using mean_counted [OF False] dir_lists_eq(2) [OF assms] by simp
  have items: "str_items buffer =
      Inr (map (\<lambda>f. text_desc f (ir (lower (filename_dir f))) counts) (shown_files fz a b fs))"
    using dir_lists_eq(1) [OF assms] by (simp add: str_items_descriptor)
  show ?thesis
    using False by (simp add: print_dir_stats_def flag m items)
qed

lemma add_dir_stats_lists:
  assumes "for_po_files fz ir a b counts True (sorted_po_files fs) ([], [], []) =
             (buffer, folder_stats, printed_list)"
  shows "add_dir_stats fmt d buffer folder_stats printed_list all_stats =
           Inr (all_stats @
             (if shown_files fz a b fs = [] then []
              else [JObject
                      [(''name'', JStr (d @ ''/'')),
                       (''pc_translated'', JFloat (fmt (mean_percent fz fs))),
                       (''files'', JArray
                          (map (\<lambda>f. json_desc f (ir (lower (filename_dir f))))
                             (shown_files fz a b fs)))]]))"
proof (cases "shown_files fz a b fs = []")
  case True
  then show ?thesis
    using dir_lists_eq(3) [OF assms] by (simp add: add_dir_stats_def)
next
  case False
  then have flag: "True \<in> set printed_list"
    using dir_lists_eq(3) [OF assms] by simp
  have m: "mean folder_stats = Inr (mean_percent fz fs)"
    using mean_counted [OF False] dir_lists_eq(2) [OF assms] by simp
  have files: "buffer =
      map (\<lambda>f. json_desc f (ir (lower (filename_dir f)))) (shown_files fz a b fs)"
    using dir_lists_eq(1) [OF assms] by (simp add: descriptor_json)
  show ?thesis
    using False by (simp add: add_dir_stats_def flag m files)
qed

lemma for_directories_text:
  "for_directories fmt fz ir a b counts False dirs (out, dir_stats) =
     ((out @ render_text fmt ir counts
         (map (\<lambda>(d, fs). (d, mean_percent fz fs, shown_files fz a b fs))
            (filter (\<lambda>(d, fs). shown_files fz a b fs \<noteq> []) dirs)),
       dir_stats), None)"
proof (induction dirs arbitrary: out)
  case Nil
  show ?case by (simp add: render_text_def)
next
  case (Cons dir dirs)
  obtain d fs where dir: "dir = (d, fs)"
    by (cases dir)
  obtain buffer folder_stats printed_list where
    lists: "for_po_files fz ir a b counts False (sorted_po_files fs) ([], [], []) =
              (buffer, folder_stats, printed_list)"
    by (cases "for_po_files fz ir a b counts False (sorted_po_files fs) ([], [], [])")
  show ?case
    by (simp add: dir lists print_dir_stats_lists [OF lists] Cons.IH render_text_def)
qed

lemma for_directories_json:
  "for_directories fmt fz ir a b counts True dirs (out, dir_stats) =
     ((out,
       dir_stats @
         map (\<lambda>(d, m, files).
                JObject
                  [(''name'', JStr (d @ ''/'')),
                   (''pc_translated'', JFloat (fmt m)),
                   (''files'', JArray
                      (map (\<lambda>f. json_desc f (ir (lower (filename_dir f)))) files))])
           (map (\<lambda>(d, fs). (d, mean_percent fz fs, shown_files fz a b fs))
              (filter (\<lambda>(d, fs). shown_files fz a b fs \<noteq> []) dirs))), None)"
proof (induction dirs arbitrary: dir_stats)
  case Nil
  show ?case by simp
next
  case (Cons dir dirs)
  obtain d fs where dir: "dir = (d, fs)"
    by (cases dir)
  obtain buffer folder_stats printed_list where
    lists: "for_po_files fz ir a b counts True (sorted_po_files fs) ([], [], []) =
              (buffer, folder_stats, printed_list)"
    by (cases "for_po_files fz ir a b counts True (sorted_po_files fs) ([], [], [])")
  show ?case
    by (simp add: dir lists add_dir_stats_lists [OF lists] Cons.IH)
qed

lemma exec_potodo_text:
  assumes "initialize_arguments (get_reservation_list E) aa ba offline hide_reserved repo =
             Inr (a, b, ir)"
      and "get_po_files_from_repo E repo = Inr dirs"
  shows "exec_potodo E repo aa ba fz offline hide_reserved counts False =
           (render_text (format_2f E) ir counts (report fz a b dirs), None)"
  by (simp add: exec_potodo_def assms for_directories_text report_def)

lemma exec_potodo_json:
  assumes "initialize_arguments (get_reservation_list E) aa ba offline hide_reserved repo =
             Inr (a, b, ir)"
      and "get_po_files_from_repo E repo = Inr dirs"
  shows "exec_potodo E repo aa ba fz offline hide_reserved counts True =
           (render_json (format_2f E) ir (report fz a b dirs), None)"
  by (simp add: exec_potodo_def assms for_directories_json report_def render_json_def)

lemma two_decimals_60: "two_decimals 60 = ''60.00''"
  by (simp add: two_decimals_def Let_def str_nat.simps) code_simp

lemma str_items_error:
  "str_items xs = Inl e \<Longrightarrow> e = TypeError ''expected str instance''"
  by (induction xs arbitrary: e rule: str_items.induct) (auto split: sum.splits)

lemma initialize_arguments_error:
  "initialize_arguments rl aa ba offline hide_reserved repo = Inl e \<Longrightarrow>
   e = ValueError ''Below must be inferior to above'' \<or> (\<exists>msg. e = ExternalError msg)"
  by (auto simp: initialize_arguments_def Let_def split: if_splits sum.splits)

lemma exec_potodo_error:
  "snd (exec_potodo E repo aa ba fuzzy offline hide_reserved counts json_format) = Some e \<Longrightarrow>
   e = ValueError ''Below must be inferior to above'' \<or> (\<exists>msg. e = ExternalError msg)"
proof (cases "initialize_arguments (get_reservation_list E) aa ba offline hide_reserved repo")
  case (Inl e')
  assume "snd (exec_potodo E repo aa ba fuzzy offline hide_reserved counts json_format) = Some e"
  with Inl have "e' = e"
    by (simp add: exec_potodo_def)
  with initialize_arguments_error [OF Inl] show ?thesis
    by simp
next
  case (Inr args)
  assume err: "snd (exec_potodo E repo aa ba fuzzy offline hide_reserved counts json_format) = Some e"
  obtain a b ir where init:
    "initialize_arguments (get_reservation_list E) aa ba offline hide_reserved repo = Inr (a, b, ir)"
    using Inr by (cases args) auto
  show ?thesis
  proof (cases "get_po_files_from_repo E repo")
    case (Inl msg)
    with init err show ?thesis
      by (auto simp: exec_potodo_def)
  next
    case repo: (Inr dirs)
    show ?thesis
      using err exec_potodo_text [OF init repo] exec_potodo_json [OF init repo]
      by (cases json_format) simp_all
  qed
qed

section \<open>Thresholds\<close>

lemma initialize_arguments_raises:
  "default_to 0 a \<noteq> 0 \<Longrightarrow> default_to 100 b < default_to 0 a \<Longrightarrow>
   initialize_arguments rl a b offline hide_reserved p =
     Inl (ValueError ''Below must be inferior to above'')"
  by (auto simp: initialize_arguments_def Let_def default_to_def split: option.splits if_splits)

text \<open>
  C9. In \<^verbatim>\<open>initialize_arguments\<close> a threshold of 0 is the same as an absent one: a call with
  \<open>below = 0\<close> is the call with \<open>below\<close> absent and the call with \<open>below = 100\<close>, and a
  call with \<open>above = 0\<close> is the call with \<open>above\<close> absent. Whenever \<open>above\<close> is 0 after
  the defaults, the comparison of \<open>below\<close> with \<open>above\<close> is not made and the function
  goes on to the reservations, whatever \<open>below\<close> is. So \<open>above = 50\<close> with \<open>below = 0\<close>
  returns the range 50 to 100, and \<open>above = 0\<close> with a negative \<open>below\<close> returns that
  range without raising.
\<close>

theorem zero_threshold_is_absent:
  "initialize_arguments rl a (Some 0) offline hide_reserved p =
     initialize_arguments rl a None offline hide_reserved p
   \<and> initialize_arguments rl a (Some 0) offline hide_reserved p =
     initialize_arguments rl a (Some 100) offline hide_reserved p
   \<and> initialize_arguments rl (Some 0) b offline hide_reserved p =
     initialize_arguments rl None b offline hide_reserved p
   \<and> (default_to 0 a = 0 \<longrightarrow>
        initialize_arguments rl a b offline hide_reserved p =
          (if \<not> offline \<and> \<not> hide_reserved
           then (case rl p of
                   Inl msg \<Rightarrow> Inl (ExternalError msg)
                 | Inr ir \<Rightarrow> Inr (0, default_to 100 b, ir))
           else Inr (0, default_to 100 b, Map.empty)))
   \<and> initialize_arguments rl (Some 50) (Some 0) True hide_reserved p = Inr (50, 100, Map.empty)
   \<and> (n < 0 \<longrightarrow>
        initialize_arguments rl (Some 0) (Some n) True hide_reserved p = Inr (0, n, Map.empty))"
  by (auto simp: initialize_arguments_def Let_def default_to_def split: sum.splits option.splits)

theorem zero_threshold_is_absent_witness:
  "default_to 0 (Some 0) = 0 \<and> (- 5 :: int) < 0
   \<and> initialize_arguments (\<lambda>repo. Inl ''offline'') (Some 0) (Some (- 5)) True False ''repo''
       = Inr (0, - 5, Map.empty)
   \<and> initialize_arguments (\<lambda>repo. Inl ''offline'') (Some 50) (Some 0) True False ''repo''
       = Inr (50, 100, Map.empty)"
proof -
  note inst = zero_threshold_is_absent
    [where rl = "\<lambda>repo. Inl ''offline''" and a = "Some 0" and b = "Some (- 5)" and n = "- 5"
       and offline = True and hide_reserved = False and p = "''repo''"]
  have zero: "default_to 0 (Some 0) = 0"
    by (simp add: default_to_def)
  have negative: "(- 5 :: int) < 0"
    by simp
  from inst zero negative show ?thesis
    by blast
qed

text \<open>
  C3, as the code has it. When \<open>above\<close> is not 0 after the defaults (an absent or zero
  \<open>above\<close> becomes 0, an absent or zero \<open>below\<close> becomes 100) and \<open>below\<close> is less than
  \<open>above\<close>, the run ends with the \<^verbatim>\<open>ValueError\<close> of \<^verbatim>\<open>initialize_arguments\<close>, whatever the
  collaborators would return, and prints nothing.
\<close>

theorem invalid_range_fails_without_output:
  assumes "default_to 0 a \<noteq> 0" and "default_to 100 b < default_to 0 a"
  shows "exec_potodo E repo a b fuzzy offline hide_reserved counts json_format =
           ([], Some (ValueError ''Below must be inferior to above''))"
  by (simp add: exec_potodo_def initialize_arguments_raises [OF assms])

theorem invalid_range_fails_without_output_witness:
  "default_to 0 (Some 50) \<noteq> 0 \<and> default_to 100 (Some 10) < default_to 0 (Some 50)
   \<and> exec_potodo sample_env ''repo'' (Some 50) (Some 10) False False False False True =
       ([], Some (ValueError ''Below must be inferior to above''))"
proof -
  have nonzero: "default_to 0 (Some 50) \<noteq> 0"
    by (simp add: default_to_def)
  have less: "default_to 100 (Some 10) < default_to 0 (Some 50)"
    by (simp add: default_to_def)
  show ?thesis
    using nonzero less invalid_range_fails_without_output [OF nonzero less] by simp
qed

text \<open>
  C3 as stated fails: with \<open>above\<close> absent and \<open>below = -5\<close> the thresholds after the
  defaults are 0 and -5, so \<open>above > below\<close>, yet the run raises nothing and, in JSON mode,
  prints the (empty) document.
\<close>

theorem invalid_range_counterexample:
  "default_to 100 (Some (- 5)) < default_to 0 None
   \<and> exec_potodo sample_env ''repo'' None (Some (- 5)) False True False False True =
       ([PrintJson (JArray [])], None)"
  by code_simp

section \<open>Files and directories\<close>

lemma shown_files_nonempty_iff:
  "shown_files fz a b fs \<noteq> [] \<longleftrightarrow> (\<exists>f\<in>set fs. passes_fuzzy fz f \<and> shown a b f)"
  by (auto simp: shown_files_def sorted_po_files_def filter_empty_conv)

text \<open>
  C1. Under thresholds with \<open>above \<le> below\<close>, for a file whose percentage is in the
  range of the data model (0 to 100), \<^verbatim>\<open>buffer_add\<close> shows the
  file, that is appends its descriptor to \<^verbatim>\<open>buffer\<close> and \<^verbatim>\<open>True\<close> to \<^verbatim>\<open>printed_list\<close>, if and
  only if \<open>above \<le> percent_translated \<le> below\<close> and \<open>percent_translated < 100\<close>. A
  file that fails this test gets no descriptor, and its percentage is appended to
  \<^verbatim>\<open>folder_stats\<close> all the same.
\<close>

theorem buffer_add_shows_within_thresholds:
  assumes "above' \<le> below'" and "valid_percent po_file"
  shows "buffer_add (buffer, folder_stats, printed_list) po_file ir above' below' counts json_format =
           (if above' \<le> percent_translated po_file \<and> percent_translated po_file \<le> below'
               \<and> percent_translated po_file < 100
            then (buffer @ [descriptor ir counts json_format po_file],
                  folder_stats @ [percent_translated po_file],
                  printed_list @ [True])
            else (buffer,
                  folder_stats @ [percent_translated po_file],
                  if json_format then printed_list else printed_list @ [False]))"
  using assms by (auto simp: buffer_add_cases shown_def valid_percent_def)

theorem buffer_add_shows_within_thresholds_witness:
  "(0::int) \<le> 100 \<and> valid_percent file_b \<and> valid_percent file_a
   \<and> buffer_add ([], [], []) file_b Map.empty 0 100 False True =
        ([descriptor Map.empty False True file_b], [50], [True])
   \<and> buffer_add ([], [], []) file_a Map.empty 0 100 False False = ([], [100], [False])"
proof -
  have range: "(0::int) \<le> 100"
    by simp
  have b: "valid_percent file_b"
    by (simp add: valid_percent_def file_b_def sample_file_def)
  have a: "valid_percent file_a"
    by (simp add: valid_percent_def file_a_def sample_file_def)
  have shown_b: "buffer_add ([], [], []) file_b Map.empty 0 100 False True =
      ([descriptor Map.empty False True file_b], [50], [True])"
    using buffer_add_shows_within_thresholds
      [OF range b, of "[]" "[]" "[]" Map.empty False True]
    by (simp add: file_b_def sample_file_def)
  have hidden_a: "buffer_add ([], [], []) file_a Map.empty 0 100 False False =
      ([], [100], [False])"
    using buffer_add_shows_within_thresholds
      [OF range a, of "[]" "[]" "[]" Map.empty False False]
    by (simp add: file_a_def sample_file_def)
  show ?thesis
    using range a b shown_b hidden_a by blast
qed

text \<open>
  C2. For a directory that is reported (\<^verbatim>\<open>True\<close> is in \<^verbatim>\<open>printed_list\<close> after the loop over
  its files), the mean that \<^verbatim>\<open>print_dir_stats\<close> formats into the header and
  \<^verbatim>\<open>add_dir_stats\<close> into \<^verbatim>\<open>pc_translated\<close> is the arithmetic mean of the percentages of all
  the files of the directory that passed the test on \<^verbatim>\<open>fuzzy\<close>, the hidden ones as well as the
  shown ones. In the example the files at 100, 50 and 30 give 60, although the first is
  hidden.
\<close>

theorem directory_mean_over_counted_files:
  assumes "for_po_files fuzzy ir above' below' counts json_format (sorted_po_files po_files)
             ([], [], []) = (buffer, folder_stats, printed_list)"
      and "True \<in> set printed_list"
  shows "mean folder_stats = Inr (mean_percent fuzzy po_files)
         \<and> mean_percent fuzzy po_files =
             of_int (sum_list (map percent_translated (filter (passes_fuzzy fuzzy) po_files)))
               / of_int (int (length (filter (passes_fuzzy fuzzy) po_files)))
         \<and> (\<not> json_format \<longrightarrow>
               (\<exists>lines. print_dir_stats fmt d buffer folder_stats printed_list =
                  ([Print (''\<newline>\<newline># '' @ d @ '' ('' @ fmt (mean_percent fuzzy po_files)
                           @ ''% done)\<newline>''),
                    Print lines], None)))
         \<and> (json_format \<longrightarrow>
               add_dir_stats fmt d buffer folder_stats printed_list all_stats =
                 Inr (all_stats @
                   [JObject [(''name'', JStr (d @ ''/'')),
                             (''pc_translated'', JFloat (fmt (mean_percent fuzzy po_files))),
                             (''files'', JArray buffer)]]))"
proof -
  have some: "shown_files fuzzy above' below' po_files \<noteq> []"
    using dir_lists_eq(3) [OF assms(1)] assms(2) by simp
  have m: "mean folder_stats = Inr (mean_percent fuzzy po_files)"
    using mean_counted [OF some] dir_lists_eq(2) [OF assms(1)] by simp
  have in_text: "\<exists>lines. print_dir_stats fmt d buffer folder_stats printed_list =
      ([Print (''\<newline>\<newline># '' @ d @ '' ('' @ fmt (mean_percent fuzzy po_files) @ ''% done)\<newline>''),
        Print lines], None)" if "\<not> json_format"
    using that assms(1) some print_dir_stats_lists [of fuzzy ir above' below' counts po_files]
    by simp
  have in_json: "add_dir_stats fmt d buffer folder_stats printed_list all_stats =
      Inr (all_stats @
        [JObject [(''name'', JStr (d @ ''/'')),
                  (''pc_translated'', JFloat (fmt (mean_percent fuzzy po_files))),
                  (''files'', JArray buffer)]])"
    by (simp add: add_dir_stats_def assms(2) m)
  show ?thesis
    using m in_text in_json by (simp add: mean_percent_def counted_files_def)
qed


theorem directory_mean_over_counted_files_witness:
  "for_po_files False Map.empty 0 100 False False (sorted_po_files [file_c, file_a, file_b])
     ([], [], []) =
     (map (descriptor Map.empty False False) [file_b, file_c], [100, 50, 30], [False, True, True])
   \<and> True \<in> set [False, True, True]
   \<and> mean [100, 50, 30] = Inr (mean_percent False [file_c, file_a, file_b])
   \<and> mean_percent False [file_c, file_a, file_b] = 60"
proof -
  have lists:
    "for_po_files False Map.empty 0 100 False False (sorted_po_files [file_c, file_a, file_b])
       ([], [], []) =
       (map (descriptor Map.empty False False) [file_b, file_c], [100, 50, 30],
        [False, True, True])"
    by code_simp
  have flag: "True \<in> set [False, True, True]"
    by simp
  have sixty: "mean_percent False [file_c, file_a, file_b] = 60"
    by code_simp
  have "mean [100, 50, 30] = Inr (mean_percent False [file_c, file_a, file_b])"
    using directory_mean_over_counted_files [OF lists flag, of two_decimals "''folder''" "[]"]
    by blast
  with lists flag sixty show ?thesis
    by blast
qed

text \<open>
  C8 fails on the code for the file \<open>optparse.po\<close> of the directory \<open>library\<close>:
  \<^verbatim>\<open>strip('.po')\<close> removes the characters \<open>.\<close>, \<open>p\<close> and \<open>o\<close> from both ends of the
  file name, not the extension, so the name of the record is \<open>library/tparse\<close> where the
  claim has \<open>library/optparse\<close>. The keys and their order are those of the claim.
\<close>

theorem strip_po_eats_the_name:
  "buffer_add ([], [], []) (sample_file ''library'' ''optparse.po'' [] 3 10 30) Map.empty 0 100
     False True =
     ([JObject
         [(''name'', JStr ''library/tparse''),
          (''path'', JStr ''fr/library/optparse.po''),
          (''entries'', JInt 10),
          (''fuzzies'', JInt 0),
          (''translated'', JInt 3),
          (''pc_translated'', JInt 30),
          (''reserved_by'', JNull)]],
      [30], [True])"
  by code_simp

text \<open>
  C4. In both modes a directory is in the output if and only if one of its files is shown.
  After the loop over its files, \<^verbatim>\<open>True\<close> is in \<^verbatim>\<open>printed_list\<close> exactly when some file
  passes the test on \<^verbatim>\<open>fuzzy\<close> and is shown by \<^verbatim>\<open>buffer_add\<close>. Then \<^verbatim>\<open>print_dir_stats\<close>
  prints the header and the lines (text mode) and \<^verbatim>\<open>add_dir_stats\<close> appends one record (JSON
  mode); otherwise \<^verbatim>\<open>print_dir_stats\<close> prints nothing and \<^verbatim>\<open>add_dir_stats\<close> leaves
  \<^verbatim>\<open>all_stats\<close> as it is.
\<close>

theorem directory_reported_iff_file_shown:
  assumes "for_po_files fuzzy ir above' below' counts json_format (sorted_po_files po_files)
             ([], [], []) = (buffer, folder_stats, printed_list)"
  shows "(True \<in> set printed_list) =
           (\<exists>f\<in>set po_files. passes_fuzzy fuzzy f \<and> shown above' below' f)
         \<and> (\<not> json_format \<longrightarrow>
               (if \<exists>f\<in>set po_files. passes_fuzzy fuzzy f \<and> shown above' below' f
                then \<exists>header lines.
                       print_dir_stats fmt d buffer folder_stats printed_list =
                         ([Print header, Print lines], None)
                else print_dir_stats fmt d buffer folder_stats printed_list = ([], None)))
         \<and> (json_format \<longrightarrow>
               (if \<exists>f\<in>set po_files. passes_fuzzy fuzzy f \<and> shown above' below' f
                then \<exists>entry. add_dir_stats fmt d buffer folder_stats printed_list all_stats =
                               Inr (all_stats @ [entry])
                else add_dir_stats fmt d buffer folder_stats printed_list all_stats =
                       Inr all_stats))"
proof -
  have flag: "(True \<in> set printed_list) =
      (\<exists>f\<in>set po_files. passes_fuzzy fuzzy f \<and> shown above' below' f)"
    using dir_lists_eq(3) [OF assms] by (simp add: shown_files_nonempty_iff)
  have in_text: "if \<exists>f\<in>set po_files. passes_fuzzy fuzzy f \<and> shown above' below' f
      then \<exists>header lines. print_dir_stats fmt d buffer folder_stats printed_list =
             ([Print header, Print lines], None)
      else print_dir_stats fmt d buffer folder_stats printed_list = ([], None)"
    if "\<not> json_format"
  proof -
    from that assms have lists:
      "for_po_files fuzzy ir above' below' counts False (sorted_po_files po_files)
         ([], [], []) = (buffer, folder_stats, printed_list)"
      by simp
    show ?thesis
      unfolding print_dir_stats_lists [OF lists]
      using shown_files_nonempty_iff [of fuzzy above' below' po_files] by auto
  qed
  have in_json: "if \<exists>f\<in>set po_files. passes_fuzzy fuzzy f \<and> shown above' below' f
      then \<exists>entry. add_dir_stats fmt d buffer folder_stats printed_list all_stats =
             Inr (all_stats @ [entry])
      else add_dir_stats fmt d buffer folder_stats printed_list all_stats = Inr all_stats"
    if json_format
  proof -
    from that assms have lists:
      "for_po_files fuzzy ir above' below' counts True (sorted_po_files po_files)
         ([], [], []) = (buffer, folder_stats, printed_list)"
      by simp
    show ?thesis
      unfolding add_dir_stats_lists [OF lists]
      using shown_files_nonempty_iff [of fuzzy above' below' po_files] by auto
  qed
  show ?thesis
    using flag in_text in_json by blast
qed

theorem directory_reported_iff_file_shown_witness:
  "for_po_files False Map.empty 0 100 False True (sorted_po_files [file_d]) ([], [], []) =
     ([], [100], [])
   \<and> \<not> (\<exists>f\<in>set [file_d]. passes_fuzzy False f \<and> shown 0 100 f)
   \<and> add_dir_stats two_decimals ''done'' [] [100] [] [] = Inr []
   \<and> for_po_files False Map.empty 0 100 False False (sorted_po_files [file_c, file_a, file_b])
        ([], [], []) =
        (map (descriptor Map.empty False False) [file_b, file_c], [100, 50, 30],
         [False, True, True])
   \<and> (\<exists>f\<in>set [file_c, file_a, file_b]. passes_fuzzy False f \<and> shown 0 100 f)
   \<and> print_dir_stats two_decimals ''folder''
        (map (descriptor Map.empty False False) [file_b, file_c]) [100, 50, 30]
        [False, True, True] \<noteq> ([], None)"
proof -
  have done_lists:
    "for_po_files False Map.empty 0 100 False True (sorted_po_files [file_d]) ([], [], []) =
       ([], [100], [])"
    by code_simp
  have hidden: "\<not> (\<exists>f\<in>set [file_d]. passes_fuzzy False f \<and> shown 0 100 f)"
    by (simp add: shown_def file_d_def sample_file_def)
  have folder_lists:
    "for_po_files False Map.empty 0 100 False False (sorted_po_files [file_c, file_a, file_b])
       ([], [], []) =
       (map (descriptor Map.empty False False) [file_b, file_c], [100, 50, 30],
        [False, True, True])"
    by code_simp
  have visible: "\<exists>f\<in>set [file_c, file_a, file_b]. passes_fuzzy False f \<and> shown 0 100 f"
    by (simp add: shown_def passes_fuzzy_def file_c_def sample_file_def)
  have unreported: "add_dir_stats two_decimals ''done'' [] [100] [] [] = Inr []"
    using hidden directory_reported_iff_file_shown [OF done_lists, of two_decimals "''done''" "[]"]
    by simp
  have reported: "print_dir_stats two_decimals ''folder''
        (map (descriptor Map.empty False False) [file_b, file_c]) [100, 50, 30]
        [False, True, True] \<noteq> ([], None)"
    using visible
      directory_reported_iff_file_shown [OF folder_lists, of two_decimals "''folder''" "[]"]
    by auto
  show ?thesis
    using done_lists hidden unreported folder_lists visible reported by blast
qed

text \<open>
  C6. With \<^verbatim>\<open>fuzzy\<close> set, a file that has no fuzzy entry leaves the three lists as they are:
  no descriptor, no percentage in \<^verbatim>\<open>folder_stats\<close>, no flag in \<^verbatim>\<open>printed_list\<close>. A file that
  has a fuzzy entry goes to \<^verbatim>\<open>buffer_add\<close>. So the loop with the flag is the loop without it
  over the files that have a fuzzy entry.
\<close>

theorem fuzzy_only_skips_files_without_fuzzies:
  "(fuzzy_entries po_file = [] \<longrightarrow>
      for_po_files True ir above' below' counts json_format [po_file] st = st)
   \<and> (fuzzy_entries po_file \<noteq> [] \<longrightarrow>
      for_po_files True ir above' below' counts json_format [po_file] st =
        buffer_add st po_file ir above' below' counts json_format)
   \<and> for_po_files True ir above' below' counts json_format po_files st =
       for_po_files False ir above' below' counts json_format
         (filter (\<lambda>f. fuzzy_entries f \<noteq> []) po_files) st"
proof -
  have loop: "for_po_files True ir above' below' counts json_format po_files st =
       for_po_files False ir above' below' counts json_format
         (filter (\<lambda>f. fuzzy_entries f \<noteq> []) po_files) st"
    by (induction po_files arbitrary: st) simp_all
  show ?thesis
    using loop by simp
qed

theorem fuzzy_only_skips_files_without_fuzzies_witness:
  "fuzzy_entries file_c = [] \<and> fuzzy_entries file_b \<noteq> []
   \<and> for_po_files True Map.empty 0 100 False False [file_c] ([], [], []) = ([], [], [])
   \<and> for_po_files True Map.empty 0 100 False False [file_b] ([], [], []) =
       buffer_add ([], [], []) file_b Map.empty 0 100 False False
   \<and> for_po_files True Map.empty 0 100 False False [file_c, file_b] ([], [], []) =
       for_po_files False Map.empty 0 100 False False [file_b] ([], [], [])"
proof -
  have none: "fuzzy_entries file_c = []"
    by (simp add: file_c_def sample_file_def)
  have some: "fuzzy_entries file_b \<noteq> []"
    by (simp add: file_b_def sample_file_def)
  have keep: "filter (\<lambda>f. fuzzy_entries f \<noteq> []) [file_c, file_b] = [file_b]"
    by (simp add: none some)
  show ?thesis
    using none some
      fuzzy_only_skips_files_without_fuzzies
        [of file_c Map.empty 0 100 False False "([], [], [])" "[file_c, file_b]"]
      fuzzy_only_skips_files_without_fuzzies
        [of file_b Map.empty 0 100 False False "([], [], [])" "[file_c, file_b]"]
    by (simp add: keep)
qed

text \<open>
  C10. \<^verbatim>\<open>statistics.mean\<close> is never called on an empty list. After the loop over the files
  of a directory there are at least as many percentages in \<^verbatim>\<open>folder_stats\<close> as flags in
  \<^verbatim>\<open>printed_list\<close>, so when \<^verbatim>\<open>True\<close> is among the flags, which is the guard of both
  \<^verbatim>\<open>print_dir_stats\<close> and \<^verbatim>\<open>add_dir_stats\<close>, \<^verbatim>\<open>folder_stats\<close> is not empty and the mean is
  defined. Neither function, nor the run, ends with the \<^verbatim>\<open>StatisticsError\<close>.
\<close>

theorem mean_never_of_empty_list:
  assumes "for_po_files fuzzy ir above' below' counts json_format (sorted_po_files po_files)
             ([], [], []) = (buffer, folder_stats, printed_list)"
  shows "length printed_list \<le> length folder_stats
         \<and> (True \<in> set printed_list \<longrightarrow>
               folder_stats \<noteq> [] \<and> mean folder_stats = Inr (mean_percent fuzzy po_files))
         \<and> snd (print_dir_stats fmt d buffer folder_stats printed_list) \<noteq> Some (StatisticsError msg)
         \<and> add_dir_stats fmt d buffer folder_stats printed_list all_stats \<noteq> Inl (StatisticsError msg)
         \<and> snd (exec_potodo E repo aa ba fuzzy offline hide_reserved counts json_format)
               \<noteq> Some (StatisticsError msg)"
proof -
  have len: "length printed_list \<le> length folder_stats"
  proof -
    have "length (filter (\<lambda>f. passes_fuzzy fuzzy f \<and> shown above' below' f) xs)
            \<le> length (filter (passes_fuzzy fuzzy) xs)" for xs
      by (induction xs) auto
    then show ?thesis
      using assms by (auto simp: for_po_files_lists split: if_splits)
  qed
  have m: "folder_stats \<noteq> [] \<and> mean folder_stats = Inr (mean_percent fuzzy po_files)"
    if "True \<in> set printed_list"
  proof -
    have some: "shown_files fuzzy above' below' po_files \<noteq> []"
      using dir_lists_eq(3) [OF assms] that by simp
    show ?thesis
      using mean_counted [OF some] shown_files_counted [OF some] dir_lists_eq(2) [OF assms]
      by simp
  qed
  have printing: "snd (print_dir_stats fmt d buffer folder_stats printed_list)
      \<noteq> Some (StatisticsError msg)"
    using m by (auto simp: print_dir_stats_def Let_def split: sum.splits dest: str_items_error)
  have adding: "add_dir_stats fmt d buffer folder_stats printed_list all_stats
      \<noteq> Inl (StatisticsError msg)"
    using m by (auto simp: add_dir_stats_def split: sum.splits)
  have run: "snd (exec_potodo E repo aa ba fuzzy offline hide_reserved counts json_format)
      \<noteq> Some (StatisticsError msg)"
    using exec_potodo_error [of E repo aa ba fuzzy offline hide_reserved counts json_format
        "StatisticsError msg"]
    by auto
  show ?thesis
    using len m printing adding run by blast
qed

theorem mean_never_of_empty_list_witness:
  "for_po_files False Map.empty 0 100 False False (sorted_po_files [file_c, file_a, file_b])
     ([], [], []) =
     (map (descriptor Map.empty False False) [file_b, file_c], [100, 50, 30], [False, True, True])
   \<and> length [False, True, True] \<le> length [100, 50, 30 :: int]
   \<and> True \<in> set [False, True, True]
   \<and> [100, 50, 30 :: int] \<noteq> []
   \<and> add_dir_stats two_decimals ''folder'' (map (descriptor Map.empty False False) [file_b, file_c])
        [100, 50, 30] [False, True, True] [] \<noteq> Inl (StatisticsError ''no data'')"
proof -
  have lists:
    "for_po_files False Map.empty 0 100 False False (sorted_po_files [file_c, file_a, file_b])
       ([], [], []) =
       (map (descriptor Map.empty False False) [file_b, file_c], [100, 50, 30],
        [False, True, True])"
    by code_simp
  have flag: "True \<in> set [False, True, True]"
    by simp
  show ?thesis
    using lists flag
      mean_never_of_empty_list [OF lists, of two_decimals "''folder''" "''no data''" "[]"]
    by simp
qed

section \<open>Runs in text mode and in JSON mode\<close>

text \<open>
  C5. With the same arguments otherwise, a run in text mode and a run in JSON mode render
  the same report: the directories that have a shown file, in the sorted order of their
  names, each with its shown files in the order of the loop. The text output is
  \<open>render_text\<close> of that report and the JSON document is \<open>render_json\<close> of it. When
  the thresholds are refused or a collaborator raises, both runs end with the same exception
  and print nothing.
\<close>

theorem json_and_text_render_same_report:
  "(case initialize_arguments (get_reservation_list E) aa ba offline hide_reserved repo of
      Inl e \<Rightarrow>
        exec_potodo E repo aa ba fuzzy offline hide_reserved counts False = ([], Some e)
        \<and> exec_potodo E repo aa ba fuzzy offline hide_reserved counts True = ([], Some e)
    | Inr (a, b, ir) \<Rightarrow>
        (case get_po_files_from_repo E repo of
           Inl msg \<Rightarrow>
             exec_potodo E repo aa ba fuzzy offline hide_reserved counts False =
               ([], Some (ExternalError msg))
             \<and> exec_potodo E repo aa ba fuzzy offline hide_reserved counts True =
               ([], Some (ExternalError msg))
         | Inr dirs \<Rightarrow>
             exec_potodo E repo aa ba fuzzy offline hide_reserved counts False =
               (render_text (format_2f E) ir counts (report fuzzy a b dirs), None)
             \<and> exec_potodo E repo aa ba fuzzy offline hide_reserved counts True =
               (render_json (format_2f E) ir (report fuzzy a b dirs), None)))"
proof (cases "initialize_arguments (get_reservation_list E) aa ba offline hide_reserved repo")
  case (Inl e)
  then show ?thesis
    by (simp add: exec_potodo_def)
next
  case (Inr args)
  obtain a b ir where args: "args = (a, b, ir)"
    by (cases args)
  show ?thesis
  proof (cases "get_po_files_from_repo E repo")
    case (Inl msg)
    then show ?thesis
      using Inr by (simp add: exec_potodo_def args)
  next
    case repo: (Inr dirs)
    from Inr have init:
      "initialize_arguments (get_reservation_list E) aa ba offline hide_reserved repo =
         Inr (a, b, ir)"
      by (simp add: args)
    show ?thesis
      using exec_potodo_text [OF init repo] exec_potodo_json [OF init repo]
      by (simp add: init repo)
  qed
qed

theorem json_and_text_render_same_report_witness:
  "exec_potodo sample_env ''repo'' None None False True False False False =
     (render_text two_decimals Map.empty False
        (report False 0 100 [(''folder'', [file_c, file_a, file_b]), (''done'', [file_d])]), None)
   \<and> exec_potodo sample_env ''repo'' None None False True False False True =
     (render_json two_decimals Map.empty
        (report False 0 100 [(''folder'', [file_c, file_a, file_b]), (''done'', [file_d])]), None)
   \<and> report False 0 100 [(''folder'', [file_c, file_a, file_b]), (''done'', [file_d])] =
       [(''folder'', 60, [file_b, file_c])]"
proof -
  have rep: "report False 0 100 [(''folder'', [file_c, file_a, file_b]), (''done'', [file_d])] =
      [(''folder'', 60, [file_b, file_c])]"
    by code_simp
  show ?thesis
    using rep
      json_and_text_render_same_report
        [where E = sample_env and aa = None and ba = None and offline = True
           and hide_reserved = False and repo = "''repo''" and fuzzy = False and counts = False]
    by (simp add: sample_env_def initialize_arguments_def default_to_def)
qed

text \<open>
  C7, as the code has it. In text mode the run prints, for each directory that has a shown
  file, the header \<^verbatim>\<open>"\n\n# <directory> (<mean, 2 decimals>% done)\n"\<close>, with the directory
  name as it is and no slash after it, and then the lines of the shown files joined by
  newlines; the directories come in the sorted order of their names.
\<close>

theorem text_report_layout:
  assumes "initialize_arguments (get_reservation_list E) aa ba offline hide_reserved repo =
             Inr (a, b, ir)"
      and "get_po_files_from_repo E repo = Inr dirs"
  shows "exec_potodo E repo aa ba fuzzy offline hide_reserved counts False =
           (concat (map (\<lambda>(d, po_files).
              [Print (''\<newline>\<newline># '' @ d @ '' ('' @ format_2f E (mean_percent fuzzy po_files)
                      @ ''% done)\<newline>''),
               Print (join ''\<newline>''
                 (map (\<lambda>f. text_desc f (ir (lower (filename_dir f))) counts)
                    (shown_files fuzzy a b po_files)))])
              (filter (\<lambda>(d, po_files). shown_files fuzzy a b po_files \<noteq> [])
                 (sort_key fst dirs))), None)
         \<and> sorted (map fst (sort_key fst dirs))"
proof -
  have "render_text (format_2f E) ir counts (report fuzzy a b dirs) =
      concat (map (\<lambda>(d, po_files).
              [Print (''\<newline>\<newline># '' @ d @ '' ('' @ format_2f E (mean_percent fuzzy po_files)
                      @ ''% done)\<newline>''),
               Print (join ''\<newline>''
                 (map (\<lambda>f. text_desc f (ir (lower (filename_dir f))) counts)
                    (shown_files fuzzy a b po_files)))])
              (filter (\<lambda>(d, po_files). shown_files fuzzy a b po_files \<noteq> [])
                 (sort_key fst dirs)))"
    by (simp add: render_text_def report_def comp_def case_prod_unfold)
  then show ?thesis
    using exec_potodo_text [OF assms] by simp
qed

theorem text_report_layout_witness:
  "initialize_arguments (get_reservation_list sample_env) None None True False ''repo'' =
     Inr (0, 100, Map.empty)
   \<and> get_po_files_from_repo sample_env ''repo'' =
       Inr [(''folder'', [file_c, file_a, file_b]), (''done'', [file_d])]
   \<and> exec_potodo sample_env ''repo'' None None False True False True False =
       ([Print ''\<newline>\<newline># folder (60.00% done)\<newline>'',
         Print (text_desc file_b None True @ ''\<newline>'' @ text_desc file_c None True)], None)"
proof -
  have init:
    "initialize_arguments (get_reservation_list sample_env) None None True False ''repo'' =
       Inr (0, 100, Map.empty)"
    by (simp add: initialize_arguments_def default_to_def)
  have files: "get_po_files_from_repo sample_env ''repo'' =
      Inr [(''folder'', [file_c, file_a, file_b]), (''done'', [file_d])]"
    by (simp add: sample_env_def)
  have order: "sort_key fst [(''folder'', [file_c, file_a, file_b]), (''done'', [file_d])] =
      [(''done'', [file_d]), (''folder'', [file_c, file_a, file_b])]"
    by code_simp
  have none: "shown_files False 0 100 [file_d] = []"
    by code_simp
  have some: "shown_files False 0 100 [file_c, file_a, file_b] = [file_b, file_c]"
    by code_simp
  have sixty: "mean_percent False [file_c, file_a, file_b] = 60"
    by code_simp
  have fmt: "format_2f sample_env 60 = ''60.00''"
    by (simp add: sample_env_def two_decimals_60)
  show ?thesis
    using init files text_report_layout [OF init files, of False True]
    by (simp add: order none some sixty fmt)
qed

text \<open>
  C7 as stated fails: in the example the header of the directory \<open>folder\<close> has no slash
  after the name.
\<close>

theorem text_header_counterexample:
  "hd (fst (exec_potodo sample_env ''repo'' None None False True False False False)) =
     Print ''\<newline>\<newline># folder (60.00% done)\<newline>''
   \<and> hd (fst (exec_potodo sample_env ''repo'' None None False True False False False)) \<noteq>
     Print ''\<newline>\<newline># folder/ (60.00% done)\<newline>''"
proof -
  have init:
    "initialize_arguments (get_reservation_list sample_env) None None True False ''repo'' =
       Inr (0, 100, Map.empty)"
    by (simp add: initialize_arguments_def default_to_def)
  have files: "get_po_files_from_repo sample_env ''repo'' =
      Inr [(''folder'', [file_c, file_a, file_b]), (''done'', [file_d])]"
    by (simp add: sample_env_def)
  have rep: "report False 0 100 [(''folder'', [file_c, file_a, file_b]), (''done'', [file_d])] =
      [(''folder'', 60, [file_b, file_c])]"
    by code_simp
  have fmt: "format_2f sample_env 60 = ''60.00''"
    by (simp add: sample_env_def two_decimals_60)
  show ?thesis
    by (simp add: exec_potodo_text [OF init files] rep render_text_def fmt)
qed

end
